theory Spec2Isabelle
  imports Main "HOL-Library.Word"
begin

section \<open>The parrot character device (src/parrot.c)\<close>

text \<open>
  The module keeps one message in one isolated page. Its globals are the
  protection domain \<open>parrot_pdomain\<close> and the signed pointer \<open>message\<close>.
  The functions it calls live in the kernel it is loaded into: the xMP interface
  (\<open>xmp_alloc_pdomain\<close>, \<open>xmp_free_pdomain\<close>, \<open>xmp_sign_ptr\<close>,
  \<open>xmp_auth_ptr\<close>, \<open>xmp_unprotect\<close>, \<open>xmp_protect\<close>), the page
  allocator (\<open>get_zeroed_page\<close>, \<open>free_pages\<close>) and the user copy routines
  (\<open>copy_from_user\<close>, \<open>copy_to_user\<close>). They are modelled below, each with the
  source of its model, and \<open>parrot_*\<close> are translated from src/parrot.c line by line.
\<close>

subsection \<open>Data\<close>

type_synonym byte = "8 word"
type_synonym addr = "64 word"
type_synonym pdomain = "16 word"
type_synonym ctx = nat

text \<open>One page; \<open>struct parrot_message\<close> (parrot.c 17-20) lies at its start:
  \<open>char message[256]\<close> at offset 0 and \<open>size_t message_size\<close> (8 bytes, little
  endian on x86-64, the architecture of xMP) at offset 256.\<close>

definition PAGE_SIZE :: nat where
  "PAGE_SIZE = 4096"

definition MESSAGE_OFF :: nat where
  "MESSAGE_OFF = 0"

definition MESSAGE_LEN :: nat where
  "MESSAGE_LEN = 256"

definition MESSAGE_SIZE_OFF :: nat where
  "MESSAGE_SIZE_OFF = 256"

definition EFAULT :: int where
  "EFAULT = 14"

text \<open>\<open>IS_ERR\<close> and \<open>PTR_ERR\<close> of linux/err.h: a pointer in the last 4095
  addresses carries a negative errno.\<close>

definition IS_ERR :: "addr \<Rightarrow> bool" where
  "IS_ERR p \<longleftrightarrow> p \<ge> - 4095"

definition PTR_ERR :: "addr \<Rightarrow> int" where
  "PTR_ERR p = sint p"

text \<open>The value of a \<open>size_t\<close> as the 8 bytes stored in memory.\<close>

definition le64 :: "64 word \<Rightarrow> byte list" where
  "le64 w = map (\<lambda>i. ucast (drop_bit (8 * i) w)) [0..<8]"

text \<open>A pointer of type \<open>struct parrot_message *\<close> as the global \<open>message\<close> holds
  it: \<open>NULL\<close>, or what \<open>xmp_sign_ptr\<close> made of an address, a context and a domain.\<close>

datatype sptr = Null | Signed addr ctx pdomain

datatype mode = Protected | Unprotected pdomain

datatype xmp_error = AuthFailure | DomainRevoked | InvalidDomain

text \<open>What stops a call inside the kernel instead of returning.\<close>

datatype fault =
    Unauthenticated xmp_error
  | NullDeref
  | BadPointer
  | PageOverrun
  | ProtectionFault
  | BadFree

text \<open>The calls into the kernel and the stores into the page, in the order made.\<close>

datatype event =
    EvAllocDomain pdomain
  | EvFreeDomain pdomain
  | EvAuth sptr ctx pdomain
  | EvSign addr ctx pdomain
  | EvFree addr
  | EvAlloc pdomain addr
  | EvUnprotect pdomain
  | EvProtect
  | EvCopyFromUser addr nat
  | EvStore addr nat nat
  | EvCopyToUser addr nat

record kernel =
  major :: int
  num_opens :: "32 word"
  parrot_class :: addr
  parrot_device :: addr
  parrot_pdomain :: pdomain
  message :: sptr
  this_module :: ctx
  max_pdomains :: pdomain
  domains :: "pdomain list"
  mode :: mode
  heap :: "addr \<rightharpoonup> pdomain \<times> byte list"
  free_list :: "addr list"
  trace :: "event list"

type_synonym 'a outcome = "(fault \<times> kernel) + ('a \<times> kernel)"

definition log :: "event \<Rightarrow> kernel \<Rightarrow> kernel" where
  "log e s = s\<lparr>trace := trace s @ [e]\<rparr>"

definition and_then :: "(fault \<times> kernel) + 'a \<Rightarrow> ('a \<Rightarrow> (fault \<times> kernel) + 'b) \<Rightarrow> (fault \<times> kernel) + 'b" where
  "and_then m f = (case m of Inl e \<Rightarrow> Inl e | Inr x \<Rightarrow> f x)"

text \<open>The globals as the static initialisers of parrot.c 25-34 leave them, in
  a kernel with the given module identity, domain pool and free pages.\<close>

definition loaded :: "ctx \<Rightarrow> pdomain \<Rightarrow> pdomain list \<Rightarrow> addr list \<Rightarrow> kernel" where
  "loaded ctx maxd used pages =
     \<lparr>major = 0, num_opens = 0, parrot_class = 0, parrot_device = 0,
      parrot_pdomain = 0, message = Null, this_module = ctx,
      max_pdomains = maxd, domains = used, mode = Protected,
      heap = Map.empty, free_list = pages, trace = []\<rparr>"

subsection \<open>Domain Registry\<close>

text \<open>Modelled from the spec: \<open>xmp_alloc_pdomain\<close> is declared in
  xen/interface/xmp.h, which is not part of the sources. Section 4.1: it returns the
  first free identifier out of \<open>MAX_DOMAINS\<close>; parrot.c 151 shows that the failure
  value is \<open>XMP_MAX_PDOMAINS\<close>, itself a macro of the missing header and so a
  field of the kernel here.\<close>

definition xmp_alloc_pdomain :: "kernel \<Rightarrow> pdomain \<times> kernel" where
  "xmp_alloc_pdomain s =
     (case find (\<lambda>d. d \<notin> set (domains s)) (map of_nat [0..<unat (max_pdomains s)]) of
        None \<Rightarrow> (max_pdomains s, log (EvAllocDomain (max_pdomains s)) s)
      | Some d \<Rightarrow> (d, log (EvAllocDomain d) (s\<lparr>domains := d # domains s\<rparr>)))"

text \<open>Modelled from the spec: \<open>xmp_free_pdomain\<close> of the missing header.
  Section 4.1: it returns the identifier to the pool; freeing an identifier that is
  not allocated is the error \<open>InvalidDomain\<close>.\<close>

definition xmp_free_pdomain :: "kernel \<Rightarrow> pdomain \<Rightarrow> xmp_error + kernel" where
  "xmp_free_pdomain s d =
     (if d \<in> set (domains s)
      then Inr (log (EvFreeDomain d) (s\<lparr>domains := removeAll d (domains s)\<rparr>))
      else Inl InvalidDomain)"

subsection \<open>Capability Codec\<close>

text \<open>Modelled from the spec: \<open>xmp_sign_ptr\<close> of the missing header. Sections 3
  and 4.2: a capability is a wrapper over handle, domain and context; signing has no
  side effect.\<close>

definition xmp_sign_ptr :: "addr \<Rightarrow> ctx \<Rightarrow> pdomain \<Rightarrow> sptr" where
  "xmp_sign_ptr p ctx d = Signed p ctx d"

text \<open>Modelled from the spec: the check that \<open>xmp_auth_ptr\<close> of the missing
  header makes. Section 4.2: the handle comes back only if context and domain are
  those of signing and the domain is still allocated; any discrepancy is
  \<open>AuthFailure\<close>; a capability of a freed domain is \<open>DomainRevoked\<close> (4.1, 8).
  \<open>NULL\<close> was never signed, so it does not authenticate. The result depends on the
  arguments and the pool only.\<close>

definition authenticate :: "pdomain list \<Rightarrow> sptr \<Rightarrow> ctx \<Rightarrow> pdomain \<Rightarrow> xmp_error + addr" where
  "authenticate pool p ctx d =
     (case p of
        Null \<Rightarrow> Inl AuthFailure
      | Signed h c' d' \<Rightarrow>
          if c' \<noteq> ctx \<or> d' \<noteq> d then Inl AuthFailure
          else if d \<notin> set pool then Inl DomainRevoked
          else Inr h)"

text \<open>Modelled from the spec: \<open>xmp_auth_ptr\<close> of the missing header, as
  parrot.c calls it. The C function returns a pointer and its callers test nothing:
  a pointer that did not authenticate is no address of the model, and the call that
  goes on to use it ends in the fault \<open>Unauthenticated\<close>.\<close>

definition xmp_auth_ptr :: "kernel \<Rightarrow> sptr \<Rightarrow> ctx \<Rightarrow> pdomain \<Rightarrow> addr outcome" where
  "xmp_auth_ptr s p ctx d =
     (let s' = log (EvAuth p ctx d) s in
      case authenticate (domains s) p ctx d of
        Inl e \<Rightarrow> Inl (Unauthenticated e, s')
      | Inr h \<Rightarrow> Inr (h, s'))"

subsection \<open>Access Switcher\<close>

text \<open>Modelled from the spec: \<open>xmp_unprotect\<close> of the missing header.
  Section 4.3: one protection mode; \<open>unprotect\<close> gives full access to the pages of
  the domain, with no guard against a repeated call.\<close>

definition xmp_unprotect :: "kernel \<Rightarrow> pdomain \<Rightarrow> kernel" where
  "xmp_unprotect s d = log (EvUnprotect d) (s\<lparr>mode := Unprotected d\<rparr>)"

text \<open>Modelled from the spec: \<open>xmp_protect\<close> of the missing header.
  Section 4.3: back to \<open>Protected\<close>, for whatever domain was current.\<close>

definition xmp_protect :: "kernel \<Rightarrow> kernel" where
  "xmp_protect s = log EvProtect (s\<lparr>mode := Protected\<rparr>)"

subsection \<open>Pages\<close>

text \<open>Modelled from the spec: \<open>get_zeroed_page\<close> belongs to the kernel, not to
  the sources. Sections 3 and 4.4: a page of one fixed size, allocated inside the
  owned domain; the domain is encoded in the flags (parrot.c 98-102). After
  linux/gfp.h the page is filled with zeros and the result is 0 when there is no
  page. The free pages are a list in the state, taken from the front.\<close>

definition get_zeroed_page :: "kernel \<Rightarrow> pdomain \<Rightarrow> addr \<times> kernel" where
  "get_zeroed_page s d =
     (case free_list s of
        [] \<Rightarrow> (0, log (EvAlloc d 0) s)
      | a # rest \<Rightarrow>
          (a, log (EvAlloc d a)
                (s\<lparr>free_list := rest, heap := (heap s)(a \<mapsto> (d, replicate PAGE_SIZE 0))\<rparr>)))"

text \<open>Modelled from the spec: \<open>free_pages\<close> belongs to the kernel. Section 3:
  a page is freed exactly once; here \<open>free_pages(addr, 0)\<close> does nothing for
  address 0, as in the kernel, and faults for an address that is not a live page.\<close>

definition free_pages :: "kernel \<Rightarrow> addr \<Rightarrow> unit outcome" where
  "free_pages s a =
     (let s' = log (EvFree a) s in
      if a = 0 then Inr ((), s')
      else case heap s a of
        None \<Rightarrow> Inl (BadFree, s')
      | Some pg \<Rightarrow> Inr ((), s'\<lparr>heap := (heap s)(a := None), free_list := a # free_list s\<rparr>))"

text \<open>Modelled from the spec: the memory behind the pointers. A store of \<open>bs\<close>
  at offset \<open>off\<close> of the page at \<open>p\<close>. Section 4.3 and parrot.c 108-115: the page
  is writable only in the mode of its own domain. A store that runs over the end of
  the page reaches memory the model does not hold and stops the call.\<close>

definition page_store :: "kernel \<Rightarrow> addr \<Rightarrow> nat \<Rightarrow> byte list \<Rightarrow> unit outcome" where
  "page_store s p off bs =
     (if bs = [] then Inr ((), s)
      else if p = 0 then Inl (NullDeref, s)
      else case heap s p of
        None \<Rightarrow> Inl (BadPointer, s)
      | Some (d, content) \<Rightarrow>
          if mode s \<noteq> Unprotected d then Inl (ProtectionFault, s)
          else if PAGE_SIZE < off + length bs then Inl (PageOverrun, s)
          else Inr ((), s\<lparr>heap := (heap s)(p \<mapsto>
                 (d, take off content @ bs @ drop (off + length bs) content))\<rparr>))"

text \<open>Modelled from the spec: a load of \<open>n\<close> bytes at offset \<open>off\<close> of the page
  at \<open>p\<close>. Section 4.3: the page is readable in every mode.\<close>

definition page_load :: "kernel \<Rightarrow> addr \<Rightarrow> nat \<Rightarrow> nat \<Rightarrow> byte list outcome" where
  "page_load s p off n =
     (if n = 0 then Inr ([], s)
      else if p = 0 then Inl (NullDeref, s)
      else case heap s p of
        None \<Rightarrow> Inl (BadPointer, s)
      | Some (d, content) \<Rightarrow>
          if PAGE_SIZE < off + n then Inl (PageOverrun, s)
          else Inr (take n (drop off content), s))"

subsection \<open>User copies\<close>

text \<open>Modelled from the spec: \<open>copy_from_user(to, from, n)\<close> belongs to the
  kernel. Section 6: the transfer of bytes from the user buffer, which may fault in
  part. \<open>ubuf\<close> is what can be read at the user pointer; after linux/uaccess.h the
  bytes that cannot be read are replaced by zeros in the destination and their
  number is returned.\<close>

definition copy_from_user :: "kernel \<Rightarrow> addr \<Rightarrow> nat \<Rightarrow> byte list \<Rightarrow> nat \<Rightarrow> nat outcome" where
  "copy_from_user s p off ubuf n =
     and_then (page_store (log (EvCopyFromUser p n) s) p off
                 (take n ubuf @ replicate (n - length ubuf) 0))
       (\<lambda>(u, s'). Inr (n - length ubuf, s'))"

text \<open>Modelled from the spec: \<open>copy_to_user(to, from, n)\<close> belongs to the
  kernel. Section 6: the transfer of bytes to the user buffer. \<open>room\<close> is the
  number of bytes that can be written at the user pointer. The result is the bytes
  that arrive there and the number of bytes not copied.\<close>

definition copy_to_user :: "kernel \<Rightarrow> nat \<Rightarrow> addr \<Rightarrow> nat \<Rightarrow> nat \<Rightarrow> (byte list \<times> nat) outcome" where
  "copy_to_user s room p off n =
     and_then (page_load (log (EvCopyToUser p n) s) p off (min n room))
       (\<lambda>(bs, s'). Inr ((bs, n - room), s'))"

subsection \<open>The file operations\<close>

text \<open>parrot.c 49-55. \<open>parrot_info\<close> writes to the kernel log, which the model
  does not hold, here and below.\<close>

definition parrot_open :: "kernel \<Rightarrow> int outcome" where
  "parrot_open s = Inr (0, s\<lparr>num_opens := num_opens s + 1\<rparr>)"

text \<open>parrot.c 57-80. \<open>room\<close> stands for the user buffer, \<open>len\<close> is the length
  the caller asks for. The result is the return value and the bytes delivered.
  \<open>error_count\<close> is an \<open>int\<close>.\<close>

definition parrot_read :: "kernel \<Rightarrow> nat \<Rightarrow> 64 word \<Rightarrow> (int \<times> byte list) outcome" where
  "parrot_read s room len =
     and_then (xmp_auth_ptr s (message s) (this_module s) (parrot_pdomain s))
       (\<lambda>(parrot_message, s1).
     and_then (copy_to_user s1 room parrot_message MESSAGE_OFF (unat len))
       (\<lambda>((bs, uncopied), s2).
          let error_count = (of_nat uncopied :: 32 word) in
          if error_count = 0 then Inr ((0, bs), s2)
          else Inr ((- EFAULT, bs), s2)))"

text \<open>parrot.c 82-134. \<open>ubuf\<close> stands for the user buffer, \<open>len\<close> is the length
  the caller gives.\<close>

definition parrot_write :: "kernel \<Rightarrow> byte list \<Rightarrow> 64 word \<Rightarrow> int outcome" where
  "parrot_write s ubuf len =
     and_then
       (if message s \<noteq> Null
        then and_then (xmp_auth_ptr s (message s) (this_module s) (parrot_pdomain s))
               (\<lambda>(a, s'). free_pages s' a)
        else Inr ((), s))
       (\<lambda>(u, s1).
     let (parrot_message, s2) = get_zeroed_page s1 (parrot_pdomain s1) in
     if IS_ERR parrot_message then Inr (PTR_ERR parrot_message, s2)
     else
       let s3 = xmp_unprotect s2 (parrot_pdomain s2) in
     and_then (copy_from_user s3 parrot_message MESSAGE_OFF ubuf (unat len))
       (\<lambda>(uncopied, s4).
     let error_count = (of_nat uncopied :: 32 word) in
     and_then (page_store (log (EvStore parrot_message MESSAGE_SIZE_OFF 8) s4)
                 parrot_message MESSAGE_SIZE_OFF (le64 len))
       (\<lambda>(u, s5).
     let s6 = xmp_protect s5 in
     if error_count \<noteq> 0 then Inr (- EFAULT, s6)
     else
       let s7 = log (EvSign parrot_message (this_module s6) (parrot_pdomain s6)) s6 in
       Inr (sint len,
            s7\<lparr>message := xmp_sign_ptr parrot_message (this_module s7) (parrot_pdomain s7)\<rparr>))))"

text \<open>parrot.c 136-141.\<close>

definition parrot_release :: "kernel \<Rightarrow> int outcome" where
  "parrot_release s = Inr (0, s)"

subsection \<open>Module init and exit\<close>

text \<open>parrot.c 143-182. The results of \<open>register_chrdev\<close>, \<open>class_create\<close>
  and \<open>device_create\<close> are inputs; their undoing on the error paths changes nothing
  that the model holds.\<close>

definition parrot_init :: "kernel \<Rightarrow> int \<Rightarrow> addr \<Rightarrow> addr \<Rightarrow> int \<times> kernel" where
  "parrot_init s chrdev cls dev =
     (let (d, s1) = xmp_alloc_pdomain s;
          s2 = s1\<lparr>parrot_pdomain := d\<rparr> in
      if parrot_pdomain s2 = max_pdomains s2 then (- EFAULT, s2)
      else
        let s3 = s2\<lparr>major := chrdev\<rparr> in
        if major s3 < 0 then (major s3, s3)
        else
          let s4 = s3\<lparr>parrot_class := cls\<rparr> in
          if IS_ERR (parrot_class s4) then (PTR_ERR (parrot_class s4), s4)
          else
            let s5 = s4\<lparr>parrot_device := dev\<rparr> in
            if IS_ERR (parrot_device s5) then (PTR_ERR (parrot_device s5), s5)
            else (0, s5))"

text \<open>parrot.c 184-205. The result of \<open>xmp_free_pdomain\<close> is not looked at; the
  device, class and major number are given back to the kernel.\<close>

definition parrot_exit :: "kernel \<Rightarrow> unit outcome" where
  "parrot_exit s =
     and_then (xmp_auth_ptr s (message s) (this_module s) (parrot_pdomain s))
       (\<lambda>(a, s1).
     and_then (free_pages s1 a)
       (\<lambda>(u, s2).
     let s3 = (case xmp_free_pdomain s2 (parrot_pdomain s2) of
                 Inl e \<Rightarrow> s2 | Inr s' \<Rightarrow> s') in
     Inr ((), s3)))"

subsection \<open>Observing an outcome\<close>

definition returned :: "'a outcome \<Rightarrow> 'a option" where
  "returned r = (case r of Inl e \<Rightarrow> None | Inr (x, s) \<Rightarrow> Some x)"

definition faulted :: "'a outcome \<Rightarrow> fault option" where
  "faulted r = (case r of Inl (e, s) \<Rightarrow> Some e | Inr x \<Rightarrow> None)"

definition state_after :: "'a outcome \<Rightarrow> kernel" where
  "state_after r = (case r of Inl (e, s) \<Rightarrow> s | Inr (x, s) \<Rightarrow> s)"

text \<open>The events that a call added to the trace.\<close>

definition new_events :: "kernel \<Rightarrow> kernel \<Rightarrow> event list" where
  "new_events s s' = drop (length (trace s)) (trace s')"

subsection \<open>The states the module keeps\<close>

text \<open>Between two calls the module owns its domain, the heap holds the isolated
  pages of that domain, which is the page of the stored message or none, and the
  allocator hands out real addresses only.\<close>

definition store_ok :: "kernel \<Rightarrow> bool" where
  "store_ok s \<longleftrightarrow>
     parrot_pdomain s \<in> set (domains s) \<and>
     (\<forall>a \<in> set (free_list s). a \<noteq> 0 \<and> \<not> IS_ERR a) \<and>
     (case message s of
        Null \<Rightarrow> heap s = Map.empty
      | Signed a c d \<Rightarrow>
          a \<noteq> 0 \<and> \<not> IS_ERR a \<and> c = this_module s \<and> d = parrot_pdomain s \<and>
          (\<exists>bs. length bs = PAGE_SIZE \<and> heap s = [a \<mapsto> (d, bs)]))"

text \<open>The slot alone: it is empty or holds the module's own capability to a live
  page, whatever other pages are live.\<close>

definition slot_ok :: "kernel \<Rightarrow> bool" where
  "slot_ok s \<longleftrightarrow>
     parrot_pdomain s \<in> set (domains s) \<and>
     (\<forall>a \<in> set (free_list s). a \<noteq> 0 \<and> \<not> IS_ERR a) \<and>
     (case message s of
        Null \<Rightarrow> True
      | Signed a c d \<Rightarrow>
          a \<noteq> 0 \<and> \<not> IS_ERR a \<and> c = this_module s \<and> d = parrot_pdomain s \<and>
          a \<in> dom (heap s))"

text \<open>The page that the slot accounts for.\<close>

definition stored_pages :: "kernel \<Rightarrow> addr set" where
  "stored_pages s = (case message s of Null \<Rightarrow> {} | Signed a c d \<Rightarrow> {a})"

text \<open>The bytes of the page that the stored capability points to.\<close>

definition current_page :: "kernel \<Rightarrow> byte list" where
  "current_page s =
     (case message s of
        Null \<Rightarrow> []
      | Signed a c d \<Rightarrow> (case heap s a of None \<Rightarrow> [] | Some (d', bs) \<Rightarrow> bs))"

text \<open>The page after the two stores of parrot.c 117-118 into a page of zeros.\<close>

definition page_image :: "byte list \<Rightarrow> 64 word \<Rightarrow> byte list" where
  "page_image ubuf len =
     (let n = unat len;
          c = take n ubuf @ replicate (n - length ubuf) 0 @ replicate (PAGE_SIZE - n) 0
      in take MESSAGE_SIZE_OFF c @ le64 len @ drop (MESSAGE_SIZE_OFF + 8) c)"

text \<open>The discipline of the Access Switcher read off a trace: from mode \<open>m\<close> the
  events end in \<open>Protected\<close>, no \<open>protect\<close> comes without its \<open>unprotect\<close>, and
  between the two lie only the copy from the user and the store of the length.\<close>

fun paired :: "mode \<Rightarrow> event list \<Rightarrow> bool" where
  "paired m [] = (m = Protected)"
| "paired Protected (EvUnprotect d # es) = paired (Unprotected d) es"
| "paired Protected (EvProtect # es) = False"
| "paired Protected (e # es) = paired Protected es"
| "paired (Unprotected d) (EvProtect # es) = paired Protected es"
| "paired (Unprotected d) (EvCopyFromUser p n # es) = paired (Unprotected d) es"
| "paired (Unprotected d) (EvStore p off n # es) = paired (Unprotected d) es"
| "paired (Unprotected d) (e # es) = False"

subsection \<open>Calls in sequence\<close>

text \<open>The entry points of the module: \<open>module_init\<close> and \<open>module_exit\<close>
  (parrot.c 207-208) and the table \<open>fops\<close> (parrot.c 41-47). A call that returns
  leaves the next state; a call that faults ends the run.\<close>

datatype call =
    Init int addr addr
  | Open
  | Read nat "64 word"
  | Write "byte list" "64 word"
  | Release
  | Exit

definition resumed :: "'a outcome \<Rightarrow> kernel option" where
  "resumed r = (case r of Inl e \<Rightarrow> None | Inr (x, s) \<Rightarrow> Some s)"

definition do_call :: "call \<Rightarrow> kernel \<Rightarrow> kernel option" where
  "do_call c s =
     (case c of
        Init chrdev cls dev \<Rightarrow> Some (snd (parrot_init s chrdev cls dev))
      | Open \<Rightarrow> resumed (parrot_open s)
      | Read room len \<Rightarrow> resumed (parrot_read s room len)
      | Write ubuf len \<Rightarrow> resumed (parrot_write s ubuf len)
      | Release \<Rightarrow> resumed (parrot_release s)
      | Exit \<Rightarrow> resumed (parrot_exit s))"

fun run :: "call list \<Rightarrow> kernel \<Rightarrow> kernel option" where
  "run [] s = Some s"
| "run (c # cs) s = (case do_call c s of None \<Rightarrow> None | Some s' \<Rightarrow> run cs s')"

subsection \<open>A concrete machine\<close>

text \<open>The module loaded as context 7 into a kernel with 16 domains, none in use,
  and two free pages; \<open>parrot_init\<close> has run.\<close>

definition boot :: kernel where
  "boot = snd (parrot_init (loaded 7 16 [] [0x1000, 0x2000]) 240 0x5000 0x6000)"

definition hello :: "byte list" where
  "hello = [104, 101, 108, 108, 111]"

text \<open>The same machine after \<open>write\<close> of these five bytes.\<close>

definition stored :: kernel where
  "stored = state_after (parrot_write boot hello 5)"

text \<open>The machine after a \<open>write\<close> on the empty store whose copy faulted: three
  bytes asked for, two readable.\<close>

definition leaked :: kernel where
  "leaked = state_after (parrot_write boot [1, 2] 3)"

text \<open>The module loaded into a kernel that has no free page.\<close>

definition starved :: kernel where
  "starved = snd (parrot_init (loaded 7 16 [] []) 240 0x5000 0x6000)"

section \<open>Lemmas on the kernel interface\<close>

lemma and_then_simps [simp]:
  "and_then (Inl e) f = Inl e" "and_then (Inr x) f = f x"
  by (simp_all add: and_then_def)

lemma length_le64 [simp]: "length (le64 w) = 8"
  by (simp add: le64_def)

lemma le64_not_Nil [simp]: "le64 w \<noteq> []"
  using length_le64 [of w] by (metis length_0_conv zero_neq_numeral)

lemma page_store_ok:
  assumes "heap s p = Some (d, c)" and "mode s = Unprotected d" and "p \<noteq> 0"
    and "off + length bs \<le> PAGE_SIZE"
  shows "page_store s p off bs =
     Inr ((), s\<lparr>heap := (heap s)(p \<mapsto> (d, take off c @ bs @ drop (off + length bs) c))\<rparr>)"
proof (cases "bs = []")
  case True
  have "(heap s)(p \<mapsto> (d, c)) = heap s"
    using assms(1) by (simp add: fun_upd_idem)
  with True show ?thesis by (simp add: page_store_def)
next
  case False
  with assms show ?thesis by (simp add: page_store_def)
qed

lemma copy_from_user_ok:
  assumes "heap s p = Some (d, c)" and "mode s = Unprotected d" and "p \<noteq> 0"
    and "n \<le> PAGE_SIZE"
  shows "copy_from_user s p 0 ubuf n =
     Inr (n - length ubuf,
          s\<lparr>heap := (heap s)(p \<mapsto> (d, take n ubuf @ replicate (n - length ubuf) 0 @ drop n c)),
            trace := trace s @ [EvCopyFromUser p n]\<rparr>)"
proof -
  let ?s = "log (EvCopyFromUser p n) s"
  let ?data = "take n ubuf @ replicate (n - length ubuf) 0"
  have "page_store ?s p 0 ?data =
     Inr ((), ?s\<lparr>heap := (heap ?s)(p \<mapsto> (d, take 0 c @ ?data @ drop (0 + length ?data) c))\<rparr>)"
    by (rule page_store_ok) (use assms in \<open>auto simp add: log_def\<close>)
  moreover have "min (length ubuf) n + (n - length ubuf) = n"
    by simp
  ultimately show ?thesis
    by (simp add: copy_from_user_def log_def)
qed

lemma parrot_write_fresh:
  assumes "message s = Null" and "free_list s = p # rest" and "p \<noteq> 0" and "\<not> IS_ERR p"
    and "unat len \<le> PAGE_SIZE"
  shows "parrot_write s ubuf len =
     (let d = parrot_pdomain s; failed = ((of_nat (unat len - length ubuf) :: 32 word) \<noteq> 0) in
      Inr (if failed then - EFAULT else sint len,
          s\<lparr>message := (if failed then Null else Signed p (this_module s) d),
            mode := Protected,
            heap := (heap s)(p \<mapsto> (d, page_image ubuf len)),
            free_list := rest,
            trace := trace s @ [EvAlloc d p, EvUnprotect d,
               EvCopyFromUser p (unat len), EvStore p MESSAGE_SIZE_OFF 8, EvProtect] @
               (if failed then [] else [EvSign p (this_module s) d])\<rparr>))"
  using assms
  by (simp add: parrot_write_def get_zeroed_page_def xmp_unprotect_def xmp_protect_def
      xmp_sign_ptr_def log_def Let_def page_image_def copy_from_user_ok page_store_ok
      MESSAGE_OFF_def MESSAGE_SIZE_OFF_def PAGE_SIZE_def)

lemma parrot_write_replace:
  assumes "message s = Signed a (this_module s) (parrot_pdomain s)"
    and "parrot_pdomain s \<in> set (domains s)"
    and "heap s a = Some pg" and "a \<noteq> 0" and "\<not> IS_ERR a"
    and "unat len \<le> PAGE_SIZE"
  shows "parrot_write s ubuf len =
     (let d = parrot_pdomain s; failed = ((of_nat (unat len - length ubuf) :: 32 word) \<noteq> 0) in
      Inr (if failed then - EFAULT else sint len,
          s\<lparr>mode := Protected,
            heap := (heap s)(a \<mapsto> (d, page_image ubuf len)),
            trace := trace s @ [EvAuth (message s) (this_module s) d, EvFree a,
               EvAlloc d a, EvUnprotect d,
               EvCopyFromUser a (unat len), EvStore a MESSAGE_SIZE_OFF 8, EvProtect] @
               (if failed then [] else [EvSign a (this_module s) d])\<rparr>))"
  using assms
  by (simp add: parrot_write_def get_zeroed_page_def xmp_unprotect_def xmp_protect_def
      xmp_sign_ptr_def log_def Let_def page_image_def copy_from_user_ok page_store_ok
      MESSAGE_OFF_def MESSAGE_SIZE_OFF_def PAGE_SIZE_def xmp_auth_ptr_def authenticate_def free_pages_def)


lemma parrot_read_ok:
  assumes "message s = Signed a (this_module s) (parrot_pdomain s)"
    and "parrot_pdomain s \<in> set (domains s)"
    and "heap s a = Some (d, c)" and "a \<noteq> 0"
    and "min (unat len) room \<le> PAGE_SIZE"
  shows "parrot_read s room len =
     Inr ((if (of_nat (unat len - room) :: 32 word) = 0 then 0 else - EFAULT,
           take (min (unat len) room) c),
          s\<lparr>trace := trace s @ [EvAuth (message s) (this_module s) (parrot_pdomain s),
                                 EvCopyToUser a (unat len)]\<rparr>)"
  using assms
  by (simp add: parrot_read_def xmp_auth_ptr_def authenticate_def copy_to_user_def
      page_load_def log_def Let_def MESSAGE_OFF_def not_less min_le_iff_disj)

lemma small_size:
  fixes len :: "64 word"
  assumes "unat len \<le> PAGE_SIZE"
  shows "sint len = int (unat len)"
proof -
  have "int (unat len) \<le> int 4096"
    using assms by (simp only: PAGE_SIZE_def of_nat_le_iff)
  then have "uint len \<le> 4096"
    by simp
  moreover have "(4096::int) < 2 ^ 63" and "- (2 ^ 63) \<le> (0::int)"
    by simp_all
  moreover have "0 \<le> uint len"
    by simp
  ultimately have "- (2 ^ 63) \<le> uint len" and "uint len < 2 ^ 63"
    by linarith+
  then have "signed_take_bit 63 (uint len) = uint len"
    by (rule signed_take_bit_int_eq_self)
  then have "sint len = uint len"
    by (simp add: sint_uint)
  then show ?thesis
    by simp
qed

lemma small_count:
  assumes "n \<le> PAGE_SIZE"
  shows "(of_nat n :: 32 word) = 0 \<longleftrightarrow> n = 0"
proof
  assume "(of_nat n :: 32 word) = 0"
  then have "2 ^ 32 dvd n"
    by (simp add: word_of_nat_eq_0_iff)
  moreover have "n < 2 ^ 32"
    using assms by (simp add: PAGE_SIZE_def)
  ultimately show "n = 0"
    using nat_dvd_not_less by blast
qed simp

lemma length_page_image:
  assumes "unat len \<le> PAGE_SIZE"
  shows "length (page_image ubuf len) = PAGE_SIZE"
proof -
  define c where "c = take (unat len) ubuf @ replicate (unat len - length ubuf) 0 @
    replicate (PAGE_SIZE - unat len) 0"
  have "length c = PAGE_SIZE"
    using assms by (simp add: c_def)
  then have "length (take MESSAGE_SIZE_OFF c @ le64 len @ drop (MESSAGE_SIZE_OFF + 8) c) = PAGE_SIZE"
    by (simp add: PAGE_SIZE_def MESSAGE_SIZE_OFF_def)
  then show ?thesis
    by (simp add: page_image_def Let_def c_def)
qed

lemma take_page_image:
  assumes "unat len \<le> MESSAGE_LEN" and "unat len \<le> length ubuf" and "n \<le> unat len"
  shows "take n (page_image ubuf len) = take n ubuf"
  using assms by (simp add: page_image_def Let_def PAGE_SIZE_def MESSAGE_SIZE_OFF_def MESSAGE_LEN_def)

lemma store_ok_cases:
  assumes "store_ok s"
  obtains (empty) "message s = Null" "heap s = Map.empty"
  | (full) a bs where "message s = Signed a (this_module s) (parrot_pdomain s)"
      "a \<noteq> 0" "\<not> IS_ERR a" "length bs = PAGE_SIZE" "heap s = [a \<mapsto> (parrot_pdomain s, bs)]"
  using assms by (auto simp add: store_ok_def split: sptr.splits)

lemma parrot_write_ok:
  assumes ok: "store_ok s" and page: "message s \<noteq> Null \<or> free_list s \<noteq> []"
    and len: "unat len \<le> PAGE_SIZE"
  shows "\<exists>p. p \<noteq> 0 \<and> \<not> IS_ERR p \<and> (message s = Null \<longrightarrow> p = hd (free_list s)) \<and>
     (message s \<noteq> Null \<longrightarrow> message s = Signed p (this_module s) (parrot_pdomain s)) \<and>
     parrot_write s ubuf len =
     (let d = parrot_pdomain s; failed = (unat len - length ubuf \<noteq> 0) in
      Inr (if failed then - EFAULT else int (unat len),
          s\<lparr>message := (if failed then message s else Signed p (this_module s) d),
            mode := Protected,
            heap := [p \<mapsto> (d, page_image ubuf len)],
            free_list := (if message s = Null then tl (free_list s) else free_list s),
            trace := trace s @
               (if message s = Null then [] else [EvAuth (message s) (this_module s) d, EvFree p]) @
               [EvAlloc d p, EvUnprotect d,
                EvCopyFromUser p (unat len), EvStore p MESSAGE_SIZE_OFF 8, EvProtect] @
               (if failed then [] else [EvSign p (this_module s) d])\<rparr>))"
proof -
  have cnt: "((of_nat (unat len - length ubuf) :: 32 word) \<noteq> 0) = (unat len - length ubuf \<noteq> 0)"
    using len by (simp add: small_count)
  from ok show ?thesis
  proof (cases rule: store_ok_cases)
    case empty
    with page obtain p rest where fl: "free_list s = p # rest"
      by (cases "free_list s") auto
    with ok have "p \<noteq> 0" "\<not> IS_ERR p"
      by (auto simp add: store_ok_def)
    with empty fl len have "parrot_write s ubuf len =
       (let d = parrot_pdomain s; failed = ((of_nat (unat len - length ubuf) :: 32 word) \<noteq> 0) in
        Inr (if failed then - EFAULT else sint len,
          s\<lparr>message := (if failed then Null else Signed p (this_module s) d),
            mode := Protected,
            heap := (heap s)(p \<mapsto> (d, page_image ubuf len)),
            free_list := rest,
            trace := trace s @ [EvAlloc d p, EvUnprotect d,
               EvCopyFromUser p (unat len), EvStore p MESSAGE_SIZE_OFF 8, EvProtect] @
               (if failed then [] else [EvSign p (this_module s) d])\<rparr>))"
      by (intro parrot_write_fresh)
    with empty fl \<open>p \<noteq> 0\<close> \<open>\<not> IS_ERR p\<close> show ?thesis
      by (simp add: cnt small_size [OF len] Let_def)
  next
    case (full a bs)
    moreover from ok have "parrot_pdomain s \<in> set (domains s)"
      by (simp add: store_ok_def)
    moreover from full have "heap s a = Some (parrot_pdomain s, bs)"
      by simp
    ultimately have "parrot_write s ubuf len =
       (let d = parrot_pdomain s; failed = ((of_nat (unat len - length ubuf) :: 32 word) \<noteq> 0) in
        Inr (if failed then - EFAULT else sint len,
          s\<lparr>mode := Protected,
            heap := (heap s)(a \<mapsto> (d, page_image ubuf len)),
            trace := trace s @ [EvAuth (message s) (this_module s) d, EvFree a,
               EvAlloc d a, EvUnprotect d,
               EvCopyFromUser a (unat len), EvStore a MESSAGE_SIZE_OFF 8, EvProtect] @
               (if failed then [] else [EvSign a (this_module s) d])\<rparr>))"
      using len by (intro parrot_write_replace)
    with full show ?thesis
      by (simp add: cnt small_size [OF len] Let_def)
  qed
qed

lemma parrot_write_succeeds:
  assumes "store_ok s" and "message s \<noteq> Null \<or> free_list s \<noteq> []"
    and "unat len \<le> PAGE_SIZE" and "unat len \<le> length ubuf"
  obtains p where "p \<noteq> 0" and "\<not> IS_ERR p"
    and "message s \<noteq> Null \<longrightarrow> message s = Signed p (this_module s) (parrot_pdomain s)"
    and "parrot_write s ubuf len =
      Inr (int (unat len),
          s\<lparr>message := Signed p (this_module s) (parrot_pdomain s),
            mode := Protected,
            heap := [p \<mapsto> (parrot_pdomain s, page_image ubuf len)],
            free_list := (if message s = Null then tl (free_list s) else free_list s),
            trace := trace s @
               (if message s = Null then []
                else [EvAuth (message s) (this_module s) (parrot_pdomain s), EvFree p]) @
               [EvAlloc (parrot_pdomain s) p, EvUnprotect (parrot_pdomain s),
                EvCopyFromUser p (unat len), EvStore p MESSAGE_SIZE_OFF 8, EvProtect,
                EvSign p (this_module s) (parrot_pdomain s)]\<rparr>)"
proof -
  from parrot_write_ok [OF assms(1-3), of ubuf] obtain p where "p \<noteq> 0" "\<not> IS_ERR p"
    "message s \<noteq> Null \<longrightarrow> message s = Signed p (this_module s) (parrot_pdomain s)"
    "parrot_write s ubuf len =
     (let d = parrot_pdomain s; failed = (unat len - length ubuf \<noteq> 0) in
      Inr (if failed then - EFAULT else int (unat len),
          s\<lparr>message := (if failed then message s else Signed p (this_module s) d),
            mode := Protected,
            heap := [p \<mapsto> (d, page_image ubuf len)],
            free_list := (if message s = Null then tl (free_list s) else free_list s),
            trace := trace s @
               (if message s = Null then [] else [EvAuth (message s) (this_module s) d, EvFree p]) @
               [EvAlloc d p, EvUnprotect d,
                EvCopyFromUser p (unat len), EvStore p MESSAGE_SIZE_OFF 8, EvProtect] @
               (if failed then [] else [EvSign p (this_module s) d])\<rparr>))"
    by blast
  with assms(4) show ?thesis
    by (intro that [of p]) (simp_all add: Let_def)
qed

lemma store_ok_written:
  assumes "store_ok s" and "p \<noteq> 0" and "\<not> IS_ERR p" and "unat len \<le> PAGE_SIZE"
  shows "store_ok (s\<lparr>message := Signed p (this_module s) (parrot_pdomain s),
            mode := Protected,
            heap := [p \<mapsto> (parrot_pdomain s, page_image ubuf len)],
            free_list := (if message s = Null then tl (free_list s) else free_list s),
            trace := es\<rparr>)"
proof -
  have "set (tl (free_list s)) \<subseteq> set (free_list s)"
    by (cases "free_list s") auto
  with assms show ?thesis
    by (auto simp add: store_ok_def length_page_image intro!: exI [of _ "page_image ubuf len"])
qed

lemma parrot_write_slot:
  assumes ok: "slot_ok s" and page: "message s \<noteq> Null \<or> free_list s \<noteq> []"
    and len: "unat len \<le> PAGE_SIZE" and full: "unat len \<le> length ubuf"
  obtains p where "p \<noteq> 0" and "\<not> IS_ERR p"
    and "message s \<noteq> Null \<longrightarrow> message s = Signed p (this_module s) (parrot_pdomain s)"
    and "parrot_write s ubuf len =
      Inr (int (unat len),
          s\<lparr>message := Signed p (this_module s) (parrot_pdomain s),
            mode := Protected,
            heap := (heap s)(p \<mapsto> (parrot_pdomain s, page_image ubuf len)),
            free_list := (if message s = Null then tl (free_list s) else free_list s),
            trace := trace s @
               (if message s = Null then []
                else [EvAuth (message s) (this_module s) (parrot_pdomain s), EvFree p]) @
               [EvAlloc (parrot_pdomain s) p, EvUnprotect (parrot_pdomain s),
                EvCopyFromUser p (unat len), EvStore p MESSAGE_SIZE_OFF 8, EvProtect,
                EvSign p (this_module s) (parrot_pdomain s)]\<rparr>)"
proof (cases "message s")
  case Null
  with page obtain p rest where fl: "free_list s = p # rest"
    by (cases "free_list s") auto
  with ok have p: "p \<noteq> 0" "\<not> IS_ERR p"
    by (auto simp add: slot_ok_def)
  have cnt: "(of_nat (unat len - length ubuf) :: 32 word) = 0"
    using full by simp
  from parrot_write_fresh [OF Null fl p len, of ubuf]
  have "parrot_write s ubuf len =
      Inr (int (unat len),
          s\<lparr>message := Signed p (this_module s) (parrot_pdomain s),
            mode := Protected,
            heap := (heap s)(p \<mapsto> (parrot_pdomain s, page_image ubuf len)),
            free_list := rest,
            trace := trace s @
               [EvAlloc (parrot_pdomain s) p, EvUnprotect (parrot_pdomain s),
                EvCopyFromUser p (unat len), EvStore p MESSAGE_SIZE_OFF 8, EvProtect,
                EvSign p (this_module s) (parrot_pdomain s)]\<rparr>)"
    by (simp add: cnt Let_def small_size [OF len])
  with Null fl p show ?thesis
    by (intro that [of p]) simp_all
next
  case (Signed a c d)
  with ok have a: "a \<noteq> 0" "\<not> IS_ERR a" and cd: "c = this_module s" "d = parrot_pdomain s"
    and live: "a \<in> dom (heap s)" and dom: "parrot_pdomain s \<in> set (domains s)"
    by (simp_all add: slot_ok_def)
  from live obtain pg where pg: "heap s a = Some pg"
    by blast
  have cnt: "(of_nat (unat len - length ubuf) :: 32 word) = 0"
    using full by simp
  have m: "message s = Signed a (this_module s) (parrot_pdomain s)"
    using Signed cd by simp
  from parrot_write_replace [OF m dom pg a len, of ubuf]
  have "parrot_write s ubuf len =
      Inr (int (unat len),
          s\<lparr>mode := Protected,
            heap := (heap s)(a \<mapsto> (parrot_pdomain s, page_image ubuf len)),
            trace := trace s @
               [EvAuth (message s) (this_module s) (parrot_pdomain s), EvFree a,
                EvAlloc (parrot_pdomain s) a, EvUnprotect (parrot_pdomain s),
                EvCopyFromUser a (unat len), EvStore a MESSAGE_SIZE_OFF 8, EvProtect,
                EvSign a (this_module s) (parrot_pdomain s)]\<rparr>)"
    by (simp add: cnt Let_def small_size [OF len])
  with m a show ?thesis
    by (intro that [of a]) simp_all
qed

lemma slot_ok_written:
  assumes "slot_ok s" and "p \<noteq> 0" and "\<not> IS_ERR p"
  shows "slot_ok (s\<lparr>message := Signed p (this_module s) (parrot_pdomain s),
            mode := Protected,
            heap := (heap s)(p \<mapsto> pg),
            free_list := (if message s = Null then tl (free_list s) else free_list s),
            trace := es\<rparr>)"
proof -
  have "set (tl (free_list s)) \<subseteq> set (free_list s)"
    by (cases "free_list s") auto
  with assms show ?thesis
    by (auto simp add: slot_ok_def)
qed

lemma slot_ok_kept:
  assumes ok: "slot_ok s" and page: "message s \<noteq> Null \<or> free_list s \<noteq> []"
    and len: "unat len \<le> PAGE_SIZE"
  shows "returned (parrot_write s ubuf len) \<noteq> None \<and>
    slot_ok (state_after (parrot_write s ubuf len))"
proof (cases "message s")
  case Null
  with page obtain p rest where fl: "free_list s = p # rest"
    by (cases "free_list s") auto
  with ok have p: "p \<noteq> 0" "\<not> IS_ERR p"
    by (auto simp add: slot_ok_def)
  from ok fl have rest: "\<forall>a \<in> set rest. a \<noteq> 0 \<and> \<not> IS_ERR a" "parrot_pdomain s \<in> set (domains s)"
    by (auto simp add: slot_ok_def)
  show ?thesis
    unfolding parrot_write_fresh [OF Null fl p len]
    using p rest by (simp add: Let_def returned_def state_after_def slot_ok_def)
next
  case (Signed a c d)
  with ok have a: "a \<noteq> 0" "\<not> IS_ERR a" and cd: "c = this_module s" "d = parrot_pdomain s"
    and live: "a \<in> dom (heap s)" and dom: "parrot_pdomain s \<in> set (domains s)"
    and fl: "\<forall>a \<in> set (free_list s). a \<noteq> 0 \<and> \<not> IS_ERR a"
    by (simp_all add: slot_ok_def)
  from live obtain pg where pg: "heap s a = Some pg"
    by blast
  have m: "message s = Signed a (this_module s) (parrot_pdomain s)"
    using Signed cd by simp
  show ?thesis
    unfolding parrot_write_replace [OF m dom pg a len]
    using a dom fl m by (simp add: Let_def returned_def state_after_def slot_ok_def)
qed

lemma store_ok_slot_ok:
  assumes "store_ok s"
  shows "slot_ok s"
  using assms by (auto simp add: store_ok_def slot_ok_def split: sptr.splits)

section \<open>What a call leaves in the trace\<close>

lemma and_then_returns:
  assumes "and_then m f = Inr y"
  obtains x where "m = Inr x" and "f x = Inr y"
  using assms by (cases m) simp_all

lemma page_store_keeps:
  assumes "page_store s p off bs = Inr (u, s')"
  shows "trace s' = trace s \<and> mode s' = mode s"
  using assms by (auto simp add: page_store_def split: if_splits option.splits)

lemma copy_from_user_keeps:
  assumes "copy_from_user s p off ubuf n = Inr (u, s')"
  shows "trace s' = trace s @ [EvCopyFromUser p n] \<and> mode s' = mode s"
proof -
  from assms obtain x where "page_store (log (EvCopyFromUser p n) s) p off
      (take n ubuf @ replicate (n - length ubuf) 0) = Inr x" and "Inr (n - length ubuf, snd x) = Inr (u, s')"
    unfolding copy_from_user_def by (rule and_then_returns) (simp add: split_def)
  then have "page_store (log (EvCopyFromUser p n) s) p off
      (take n ubuf @ replicate (n - length ubuf) 0) = Inr (fst x, s')"
    by (cases x) simp
  from page_store_keeps [OF this] show ?thesis
    by (simp add: log_def)
qed

lemma free_phase_keeps:
  assumes "(if message s \<noteq> Null
        then and_then (xmp_auth_ptr s (message s) (this_module s) (parrot_pdomain s))
               (\<lambda>(a, s'). free_pages s' a)
        else Inr ((), s)) = Inr (u, s1)"
  shows "mode s1 = mode s \<and> parrot_pdomain s1 = parrot_pdomain s \<and> this_module s1 = this_module s \<and>
    (trace s1 = trace s \<or>
     (\<exists>a. trace s1 = trace s @ [EvAuth (message s) (this_module s) (parrot_pdomain s), EvFree a]))"
  using assms
  by (auto simp add: xmp_auth_ptr_def free_pages_def log_def Let_def
      split: if_splits sum.splits option.splits)

lemma and_then_eq_Inr:
  "and_then m f = Inr y \<longleftrightarrow> (\<exists>x. m = Inr x \<and> f x = Inr y)"
  by (cases m) simp_all

lemma paired_append:
  assumes "paired m xs" and "paired Protected ys"
  shows "paired m (xs @ ys)"
  using assms by (induction m xs rule: paired.induct) simp_all

lemma parrot_write_paired:
  assumes "mode s = Protected" and "parrot_write s ubuf len = Inr (r, s')"
  shows "mode s' = Protected \<and> (\<exists>es. trace s' = trace s @ es \<and> paired Protected es)"
  using assms unfolding parrot_write_def
  apply (clarsimp simp add: and_then_eq_Inr)
  apply (drule free_phase_keeps)
  apply (clarsimp simp add: Let_def split_def get_zeroed_page_def split: list.splits if_splits)
  apply (auto simp add: and_then_eq_Inr xmp_unprotect_def xmp_protect_def log_def
      Let_def dest!: copy_from_user_keeps page_store_keeps split: if_splits)
  done

lemma parrot_read_paired:
  assumes "mode s = Protected" and "parrot_read s room len = Inr (r, s')"
  shows "mode s' = Protected \<and> (\<exists>es. trace s' = trace s @ es \<and> paired Protected es)"
  using assms
  by (auto simp add: parrot_read_def and_then_eq_Inr xmp_auth_ptr_def copy_to_user_def
      page_load_def log_def Let_def split: if_splits sum.splits option.splits)

lemma parrot_exit_paired:
  assumes "mode s = Protected" and "parrot_exit s = Inr (r, s')"
  shows "mode s' = Protected \<and> (\<exists>es. trace s' = trace s @ es \<and> paired Protected es)"
  using assms
  by (auto simp add: parrot_exit_def and_then_eq_Inr xmp_auth_ptr_def free_pages_def
      xmp_free_pdomain_def log_def Let_def split: if_splits sum.splits option.splits)

lemma parrot_init_paired:
  assumes "mode s = Protected" and "parrot_init s chrdev cls dev = (r, s')"
  shows "mode s' = Protected \<and> (\<exists>es. trace s' = trace s @ es \<and> paired Protected es)"
  using assms
  by (auto simp add: parrot_init_def xmp_alloc_pdomain_def log_def Let_def
      split: if_splits option.splits)

lemma do_call_paired:
  assumes "mode s = Protected" and "do_call c s = Some s'"
  shows "mode s' = Protected \<and> (\<exists>es. trace s' = trace s @ es \<and> paired Protected es)"
proof (cases c)
  case (Init chrdev cls dev)
  with assms(2) have "parrot_init s chrdev cls dev = (fst (parrot_init s chrdev cls dev), s')"
    by (simp add: do_call_def prod_eq_iff)
  from parrot_init_paired [OF assms(1) this] show ?thesis .
next
  case Open
  with assms show ?thesis
    by (auto simp add: do_call_def resumed_def parrot_open_def)
next
  case (Read room len)
  with assms(2) obtain r where "parrot_read s room len = Inr (r, s')"
    by (auto simp add: do_call_def resumed_def split: sum.splits)
  from parrot_read_paired [OF assms(1) this] show ?thesis .
next
  case (Write ubuf len)
  with assms(2) obtain r where "parrot_write s ubuf len = Inr (r, s')"
    by (auto simp add: do_call_def resumed_def split: sum.splits)
  from parrot_write_paired [OF assms(1) this] show ?thesis .
next
  case Release
  with assms show ?thesis
    by (auto simp add: do_call_def resumed_def parrot_release_def)
next
  case Exit
  with assms(2) obtain r where "parrot_exit s = Inr (r, s')"
    by (auto simp add: do_call_def resumed_def split: sum.splits)
  from parrot_exit_paired [OF assms(1) this] show ?thesis .
qed

lemma run_paired:
  assumes "mode s = Protected" and "run cs s = Some s'"
  shows "mode s' = Protected \<and> (\<exists>es. trace s' = trace s @ es \<and> paired Protected es)"
  using assms
proof (induction cs arbitrary: s)
  case Nil
  then show ?case by simp
next
  case (Cons c cs)
  from Cons.prems(2) obtain s1 where c: "do_call c s = Some s1" and cs: "run cs s1 = Some s'"
    by (auto split: option.splits)
  from do_call_paired [OF Cons.prems(1) c] obtain e1 where
    s1: "mode s1 = Protected" "trace s1 = trace s @ e1" "paired Protected e1"
    by blast
  from Cons.IH [OF s1(1) cs] obtain e2 where
    s': "mode s' = Protected" "trace s' = trace s1 @ e2" "paired Protected e2"
    by blast
  have "trace s' = trace s @ (e1 @ e2)" "paired Protected (e1 @ e2)"
    using s1 s' by (simp_all add: paired_append)
  with s'(1) show ?case
    by blast
qed

section \<open>The concrete machine\<close>

lemma boot_eq:
  "boot = \<lparr>major = 240, num_opens = 0, parrot_class = 0x5000, parrot_device = 0x6000,
      parrot_pdomain = 0, message = Null, this_module = 7,
      max_pdomains = 16, domains = [0], mode = Protected,
      heap = Map.empty, free_list = [0x1000, 0x2000], trace = [EvAllocDomain 0]\<rparr>"
  by (simp add: boot_def parrot_init_def loaded_def xmp_alloc_pdomain_def log_def IS_ERR_def
      upt_conv_Cons)

lemma store_ok_boot: "store_ok boot"
  by (simp add: boot_eq store_ok_def IS_ERR_def)

lemma le64_257: "le64 257 = [1, 1, 0, 0, 0, 0, 0, 0]"
  by (simp add: le64_def upt_conv_Cons)

lemma write_hello:
  "parrot_write boot hello 5 =
     Inr (5, boot\<lparr>message := Signed 0x1000 7 0,
            heap := [0x1000 \<mapsto> (0, page_image hello 5)],
            free_list := [0x2000],
            trace := [EvAllocDomain 0, EvAlloc 0 0x1000, EvUnprotect 0, EvCopyFromUser 0x1000 5,
               EvStore 0x1000 256 8, EvProtect, EvSign 0x1000 7 0]\<rparr>)"
  apply (subst parrot_write_fresh [where p = "0x1000" and rest = "[0x2000]"])
  apply (simp_all add: boot_eq IS_ERR_def PAGE_SIZE_def hello_def Let_def MESSAGE_SIZE_OFF_def)
  done

lemma stored_eq:
  "stored = boot\<lparr>message := Signed 0x1000 7 0,
            heap := [0x1000 \<mapsto> (0, page_image hello 5)],
            free_list := [0x2000],
            trace := [EvAllocDomain 0, EvAlloc 0 0x1000, EvUnprotect 0, EvCopyFromUser 0x1000 5,
               EvStore 0x1000 256 8, EvProtect, EvSign 0x1000 7 0]\<rparr>"
  by (simp add: stored_def write_hello state_after_def)

lemma store_ok_stored: "store_ok stored"
proof -
  have "length (page_image hello 5) = PAGE_SIZE"
    by (rule length_page_image) (simp add: PAGE_SIZE_def)
  then have "\<exists>bs. length bs = PAGE_SIZE \<and>
      [0x1000 \<mapsto> (0 :: pdomain, page_image hello 5)] = [(0x1000 :: addr) \<mapsto> (0, bs)]"
    by blast
  then show ?thesis
    by (simp add: stored_eq boot_eq store_ok_def IS_ERR_def)
qed

lemma read_stored:
  assumes "min (unat len) room \<le> PAGE_SIZE"
  shows "parrot_read stored room len =
     Inr ((if (of_nat (unat len - room) :: 32 word) = 0 then 0 else - EFAULT,
           take (min (unat len) room) (page_image hello 5)),
          stored\<lparr>trace := trace stored @ [EvAuth (Signed 0x1000 7 0) 7 0,
                                 EvCopyToUser 0x1000 (unat len)]\<rparr>)"
  using assms
  by (subst parrot_read_ok [where a = "0x1000" and d = 0 and c = "page_image hello 5"])
    (simp_all add: stored_eq boot_eq)

lemma starved_eq:
  "starved = \<lparr>major = 240, num_opens = 0, parrot_class = 0x5000, parrot_device = 0x6000,
      parrot_pdomain = 0, message = Null, this_module = 7,
      max_pdomains = 16, domains = [0], mode = Protected,
      heap = Map.empty, free_list = [], trace = [EvAllocDomain 0]\<rparr>"
  by (simp add: starved_def parrot_init_def loaded_def xmp_alloc_pdomain_def log_def IS_ERR_def
      upt_conv_Cons)

lemma leaked_eq:
  "leaked = boot\<lparr>heap := [0x1000 \<mapsto> (0, page_image [1, 2] 3)],
            free_list := [0x2000],
            trace := [EvAllocDomain 0, EvAlloc 0 0x1000, EvUnprotect 0, EvCopyFromUser 0x1000 3,
               EvStore 0x1000 256 8, EvProtect]\<rparr>"
  unfolding leaked_def
  apply (subst parrot_write_fresh [where p = "0x1000" and rest = "[0x2000]"])
  apply (simp_all add: boot_eq IS_ERR_def PAGE_SIZE_def Let_def MESSAGE_SIZE_OFF_def state_after_def)
  done

text \<open>Teardown of a store that holds a message: the page and then the domain are
  given back.\<close>

lemma exit_stored:
  "parrot_exit stored =
     Inr ((), stored\<lparr>domains := [], heap := Map.empty, free_list := [0x1000, 0x2000],
            trace := trace stored @
              [EvAuth (Signed 0x1000 7 0) 7 0, EvFree 0x1000, EvFreeDomain 0]\<rparr>)"
  by (simp add: parrot_exit_def xmp_auth_ptr_def authenticate_def free_pages_def
      xmp_free_pdomain_def log_def stored_eq boot_eq Let_def)

lemma page_hello: "take 16 (page_image hello 5) = hello @ replicate 11 0"
  by (simp add: page_image_def hello_def PAGE_SIZE_def MESSAGE_SIZE_OFF_def Let_def)

section \<open>Capability Codec\<close>

text \<open>
  C5. For every raw handle \<open>h\<close>, context \<open>c\<close> and allocated domain \<open>d\<close>,
  authenticating the capability produced by signing \<open>h\<close> with \<open>(c, d)\<close>, using
  the same \<open>c\<close> and \<open>d\<close>, returns exactly \<open>h\<close>.
\<close>

theorem sign_auth_round_trip:
  assumes "d \<in> set (domains s)"
  shows "authenticate (domains s) (xmp_sign_ptr h c d) c d = Inr h \<and>
    xmp_auth_ptr s (xmp_sign_ptr h c d) c d = Inr (h, log (EvAuth (xmp_sign_ptr h c d) c d) s)"
  using assms by (simp add: xmp_auth_ptr_def authenticate_def xmp_sign_ptr_def)

theorem sign_auth_round_trip_witness:
  "(0 :: pdomain) \<in> set (domains boot) \<and>
   authenticate (domains boot) (xmp_sign_ptr 0x1000 7 0) 7 0 = Inr 0x1000 \<and>
   xmp_auth_ptr boot (xmp_sign_ptr 0x1000 7 0) 7 0 =
     Inr (0x1000, log (EvAuth (xmp_sign_ptr 0x1000 7 0) 7 0) boot)"
proof -
  have h: "(0 :: pdomain) \<in> set (domains boot)"
    by (simp add: boot_eq)
  show ?thesis
    using h sign_auth_round_trip [OF h, of "0x1000" 7] by simp
qed

text \<open>
  C6. Authentication fails with \<open>AuthFailure\<close> whenever the context or the domain
  presented differs from the one used at signing time; a mismatched capability never
  yields a handle.
\<close>

theorem auth_binding:
  assumes "c1 \<noteq> c2 \<or> d1 \<noteq> d2"
  shows "authenticate (domains s) (xmp_sign_ptr h c1 d1) c2 d2 = Inl AuthFailure \<and>
    xmp_auth_ptr s (xmp_sign_ptr h c1 d1) c2 d2 =
      Inl (Unauthenticated AuthFailure, log (EvAuth (xmp_sign_ptr h c1 d1) c2 d2) s) \<and>
    returned (xmp_auth_ptr s (xmp_sign_ptr h c1 d1) c2 d2) = None"
  using assms by (auto simp add: xmp_auth_ptr_def authenticate_def xmp_sign_ptr_def returned_def)

theorem auth_binding_witness:
  "authenticate (domains boot) (xmp_sign_ptr 0x1000 7 0) 8 0 = Inl AuthFailure \<and>
   authenticate (domains boot) (xmp_sign_ptr 0x1000 7 0) 7 1 = Inl AuthFailure \<and>
   returned (xmp_auth_ptr boot (xmp_sign_ptr 0x1000 7 0) 7 1) = None"
proof -
  have h1: "(7 :: ctx) \<noteq> 8 \<or> (0 :: pdomain) \<noteq> 0" and h2: "(7 :: ctx) \<noteq> 7 \<or> (0 :: pdomain) \<noteq> 1"
    by simp_all
  show ?thesis
    using h1 h2 auth_binding [OF h1, of boot "0x1000"] auth_binding [OF h2, of boot "0x1000"]
    by (simp add: returned_def)
qed

section \<open>Isolated Message Store\<close>

text \<open>
  C1, as the code has it. For every byte sequence \<open>b\<close> of at most 256 bytes, the
  size of the \<open>message\<close> field, \<open>write(b)\<close> returns the length of \<open>b\<close>, and a
  following \<open>read\<close> that asks for exactly that many bytes, into a buffer with room for
  them, delivers exactly \<open>b\<close> and returns 0.
\<close>

theorem write_read_fidelity:
  assumes "store_ok s" and "message s \<noteq> Null \<or> free_list s \<noteq> []"
    and "unat len = length b" and "length b \<le> MESSAGE_LEN" and "length b \<le> room"
  shows "returned (parrot_write s b len) = Some (int (length b)) \<and>
    returned (parrot_read (state_after (parrot_write s b len)) room len) = Some (0, b)"
proof -
  have len: "unat len \<le> PAGE_SIZE"
    using assms(3,4) by (simp add: MESSAGE_LEN_def PAGE_SIZE_def)
  let ?d = "parrot_pdomain s"
  define s1 where "s1 = state_after (parrot_write s b len)"
  from parrot_write_ok [OF assms(1,2) len, of b] obtain p where p: "p \<noteq> 0"
    and cap: "message s \<noteq> Null \<longrightarrow> message s = Signed p (this_module s) ?d"
    and w': "parrot_write s b len =
     (let d = parrot_pdomain s; failed = (unat len - length b \<noteq> 0) in
      Inr (if failed then - EFAULT else int (unat len),
          s\<lparr>message := (if failed then message s else Signed p (this_module s) d),
            mode := Protected,
            heap := [p \<mapsto> (d, page_image b len)],
            free_list := (if message s = Null then tl (free_list s) else free_list s),
            trace := trace s @
               (if message s = Null then [] else [EvAuth (message s) (this_module s) d, EvFree p]) @
               [EvAlloc d p, EvUnprotect d,
                EvCopyFromUser p (unat len), EvStore p MESSAGE_SIZE_OFF 8, EvProtect] @
               (if failed then [] else [EvSign p (this_module s) d])\<rparr>))"
    by blast
  have w: "parrot_write s b len = Inr (int (length b), s1)"
    unfolding s1_def w' by (simp add: assms(3) state_after_def Let_def)
  have s1: "message s1 = Signed p (this_module s) ?d" "heap s1 = [p \<mapsto> (?d, page_image b len)]"
      "this_module s1 = this_module s" "parrot_pdomain s1 = ?d" "domains s1 = domains s"
    unfolding s1_def w' by (simp_all add: assms(3) state_after_def Let_def)
  have "parrot_read s1 room len =
     Inr ((if (of_nat (unat len - room) :: 32 word) = 0 then 0 else - EFAULT,
           take (min (unat len) room) (page_image b len)),
          s1\<lparr>trace := trace s1 @ [EvAuth (message s1) (this_module s1) (parrot_pdomain s1),
                                 EvCopyToUser p (unat len)]\<rparr>)"
    using s1 p assms(1,5) len
    by (intro parrot_read_ok [where d = ?d]) (simp_all add: store_ok_def assms(3))
  moreover have "take (min (unat len) room) (page_image b len) = b"
    using assms(3,4,5) by (simp add: take_page_image)
  ultimately have "returned (parrot_read s1 room len) = Some (0, b)"
    using assms(3,5) by (simp add: returned_def)
  then show ?thesis
    unfolding s1_def using w by (simp add: returned_def)
qed

theorem write_read_fidelity_witness:
  "returned (parrot_write boot hello 5) = Some 5 \<and>
   returned (parrot_read (state_after (parrot_write boot hello 5)) 8 5) = Some (0, hello)"
proof -
  have h: "message boot \<noteq> Null \<or> free_list boot \<noteq> []"
    "unat (5 :: 64 word) = length hello" "length hello \<le> MESSAGE_LEN" "length hello \<le> 8"
    by (simp_all add: boot_eq hello_def MESSAGE_LEN_def)
  show ?thesis
    using write_read_fidelity [OF store_ok_boot h] by (simp add: hello_def)
qed

text \<open>
  C1 as stated fails: after \<open>write\<close> of the five bytes of \<open>hello\<close>, a \<open>read\<close> of 3
  bytes delivers three bytes and a \<open>read\<close> of 16 bytes delivers sixteen, both with
  return value 0; and a message of 257 bytes, within the page, is read back with its
  last byte replaced by the low byte of \<open>message_size\<close>, which lies at offset 256.
\<close>

theorem write_read_fidelity_counterexample:
  "returned (parrot_read stored 8 3) = Some (0, [104, 101, 108]) \<and>
   returned (parrot_read stored 16 16) = Some (0, hello @ replicate 11 0) \<and>
   returned (parrot_read (state_after (parrot_write boot (replicate 257 65) 257)) 257 257) =
     Some (0, replicate 256 65 @ [1])"
proof -
  have "take 3 (page_image hello 5) = take 3 hello"
    by (rule take_page_image) (simp_all add: hello_def MESSAGE_LEN_def)
  then have a: "returned (parrot_read stored 8 3) = Some (0, [104, 101, 108])"
    by (simp add: read_stored PAGE_SIZE_def returned_def hello_def)
  have b: "returned (parrot_read stored 16 16) = Some (0, hello @ replicate 11 0)"
    by (simp add: read_stored PAGE_SIZE_def returned_def page_hello)
  let ?b = "replicate 257 65 :: byte list"
  have w: "parrot_write boot ?b 257 =
     Inr (257, boot\<lparr>message := Signed 0x1000 7 0,
            heap := [0x1000 \<mapsto> (0, page_image ?b 257)],
            free_list := [0x2000],
            trace := [EvAllocDomain 0, EvAlloc 0 0x1000, EvUnprotect 0, EvCopyFromUser 0x1000 257,
               EvStore 0x1000 256 8, EvProtect, EvSign 0x1000 7 0]\<rparr>)"
    apply (subst parrot_write_fresh [where p = "0x1000" and rest = "[0x2000]"])
    apply (simp_all add: boot_eq IS_ERR_def PAGE_SIZE_def Let_def MESSAGE_SIZE_OFF_def)
    done
  have img: "take 257 (page_image ?b 257) = replicate 256 65 @ [1]"
    by (simp add: page_image_def PAGE_SIZE_def MESSAGE_SIZE_OFF_def Let_def le64_257)
  have "parrot_read (state_after (parrot_write boot ?b 257)) 257 257 =
     Inr ((0, take 257 (page_image ?b 257)),
       (state_after (parrot_write boot ?b 257))\<lparr>trace := trace (state_after (parrot_write boot ?b 257)) @
          [EvAuth (Signed 0x1000 7 0) 7 0, EvCopyToUser 0x1000 257]\<rparr>)"
    unfolding w state_after_def
    by (subst parrot_read_ok [where a = "0x1000" and d = 0 and c = "page_image ?b 257"])
      (simp_all add: boot_eq PAGE_SIZE_def)
  then have c: "returned (parrot_read (state_after (parrot_write boot ?b 257)) 257 257) =
     Some (0, replicate 256 65 @ [1])"
    by (simp add: returned_def img)
  from a b c show ?thesis by simp
qed

text \<open>
  C4, as the code has it. \<open>read\<close> copies out the number of bytes the caller asks
  for, from the start of the stored page, whatever length was recorded at write time;
  when they fit the page and the caller's buffer it returns 0, and it changes nothing
  of the state but the trace, so that the same \<open>read\<close> again returns the same result.
\<close>

theorem read_caller_length:
  assumes "store_ok s" and "message s \<noteq> Null" and "unat len \<le> PAGE_SIZE" and "unat len \<le> room"
  shows "returned (parrot_read s room len) = Some (0, take (unat len) (current_page s)) \<and>
    length (take (unat len) (current_page s)) = unat len \<and>
    (state_after (parrot_read s room len))\<lparr>trace := trace s\<rparr> = s \<and>
    returned (parrot_read (state_after (parrot_read s room len)) room len) =
      returned (parrot_read s room len)"
proof -
  from assms(1,2) obtain a bs where cap: "message s = Signed a (this_module s) (parrot_pdomain s)"
    and a: "a \<noteq> 0" and bs: "length bs = PAGE_SIZE"
    and hp: "heap s = [a \<mapsto> (parrot_pdomain s, bs)]"
    by (cases rule: store_ok_cases) auto
  from assms(1) have dom: "parrot_pdomain s \<in> set (domains s)"
    by (simp add: store_ok_def)
  have cur: "current_page s = bs"
    by (simp add: current_page_def cap hp)
  have zero: "(of_nat (unat len - room) :: 32 word) = 0"
    using assms(4) by simp
  have m: "min (unat len) room = unat len"
    using assms(4) by simp
  define s' where "s' = s\<lparr>trace := trace s @ [EvAuth (message s) (this_module s) (parrot_pdomain s),
                                 EvCopyToUser a (unat len)]\<rparr>"
  have r1: "parrot_read s room len = Inr ((0, take (unat len) bs), s')"
    using parrot_read_ok [where s = s and a = a and c = bs and d = "parrot_pdomain s" and len = len and room = room] cap dom hp a assms(3)
    by (simp add: zero m s'_def)
  have r2: "parrot_read s' room len = Inr ((0, take (unat len) bs),
      s'\<lparr>trace := trace s' @ [EvAuth (message s') (this_module s') (parrot_pdomain s'),
                                 EvCopyToUser a (unat len)]\<rparr>)"
    using parrot_read_ok [where s = s' and a = a and c = bs and d = "parrot_pdomain s'" and len = len and room = room] cap dom hp a assms(3)
    by (simp add: zero m s'_def)
  have "s'\<lparr>trace := trace s\<rparr> = s"
    by (simp add: s'_def)
  with r1 r2 cur bs assms(3) show ?thesis
    by (simp add: returned_def state_after_def)
qed

theorem read_caller_length_witness:
  "returned (parrot_read stored 8 3) = Some (0, take 3 (current_page stored)) \<and>
   (state_after (parrot_read stored 8 3))\<lparr>trace := trace stored\<rparr> = stored"
proof -
  have h: "message stored \<noteq> Null" "unat (3 :: 64 word) \<le> PAGE_SIZE" "unat (3 :: 64 word) \<le> 8"
    by (simp_all add: stored_eq PAGE_SIZE_def)
  show ?thesis
    using read_caller_length [OF store_ok_stored h] by simp
qed

text \<open>
  C4 as stated fails: with five bytes stored, a \<open>read\<close> of 2 bytes delivers two
  bytes and a \<open>read\<close> of 7 bytes delivers seven, and the return value is 0 also when
  five bytes are asked for.
\<close>

theorem read_caller_length_counterexample:
  "returned (parrot_read stored 2 2) = Some (0, [104, 101]) \<and>
   returned (parrot_read stored 7 7) = Some (0, [104, 101, 108, 108, 111, 0, 0]) \<and>
   returned (parrot_read stored 5 5) = Some (0, [104, 101, 108, 108, 111])"
proof -
  have "take 16 (page_image hello 5) = hello @ replicate 11 0"
    by (rule page_hello)
  then have "take 2 (take 16 (page_image hello 5)) = [104, 101]"
    "take 7 (take 16 (page_image hello 5)) = [104, 101, 108, 108, 111, 0, 0]"
    "take 5 (take 16 (page_image hello 5)) = [104, 101, 108, 108, 111]"
    by (simp_all add: hello_def numeral_eq_Suc del: take_take)
  then show ?thesis
    by (simp add: read_stored PAGE_SIZE_def returned_def)
qed

text \<open>
  C2. On a store that was never written, \<open>read\<close> should fail with \<open>NoMessage\<close>
  and leave the empty slot alone. The code has no such test: on the machine after
  \<open>parrot_init\<close>, \<open>parrot_read\<close> hands the \<open>NULL\<close> slot to \<open>xmp_auth_ptr\<close>
  and goes on with the result, for any buffer and any length.
\<close>

theorem read_empty_store:
  "parrot_read boot room len = Inl (Unauthenticated AuthFailure, log (EvAuth Null 7 0) boot)"
  by (simp add: parrot_read_def xmp_auth_ptr_def authenticate_def boot_eq log_def)

text \<open>
  C3. A payload longer than the page should be rejected before any copy, with the
  stored message left as it was. The code does not look at the length: on the machine
  that holds \<open>hello\<close>, a \<open>write\<close> of 4097 bytes frees the stored page, allocates,
  unprotects and starts the copy, which runs over the end of the page; the call stops
  there, unprotected, and the message is gone.
\<close>

theorem write_oversize:
  "faulted (parrot_write stored (replicate 4097 65) 4097) = Some PageOverrun \<and>
   new_events stored (state_after (parrot_write stored (replicate 4097 65) 4097)) =
     [EvAuth (Signed 0x1000 7 0) 7 0, EvFree 0x1000, EvAlloc 0 0x1000, EvUnprotect 0,
      EvCopyFromUser 0x1000 4097] \<and>
   mode (state_after (parrot_write stored (replicate 4097 65) 4097)) = Unprotected 0 \<and>
   current_page (state_after (parrot_write stored (replicate 4097 65) 4097)) = replicate 4096 0"
  by (simp add: parrot_write_def xmp_auth_ptr_def authenticate_def free_pages_def
      get_zeroed_page_def xmp_unprotect_def copy_from_user_def page_store_def log_def
      stored_eq boot_eq IS_ERR_def PAGE_SIZE_def MESSAGE_OFF_def Let_def
      faulted_def state_after_def new_events_def current_page_def)

text \<open>
  C9. Teardown should authenticate and free the current page only if there is one,
  and then free the domain. The code has no such test: on the machine after
  \<open>parrot_init\<close>, \<open>parrot_exit\<close> hands the \<open>NULL\<close> slot to \<open>xmp_auth_ptr\<close>, and
  the domain is still allocated where the call stops.
\<close>

theorem exit_empty_store:
  "parrot_exit boot = Inl (Unauthenticated AuthFailure, log (EvAuth Null 7 0) boot) \<and>
   domains (state_after (parrot_exit boot)) = [0]"
  by (simp add: parrot_exit_def xmp_auth_ptr_def authenticate_def boot_eq log_def state_after_def)

text \<open>
  C7, as the code has it. From a store whose slot is empty, with a free page at
  hand, or holds the module's own capability to a live page, two writes in sequence
  whose payloads fit the page and can be read both return their lengths. The second
  write authenticates the stored capability and frees the page behind it, once,
  before it allocates the new page, so it leaves as many live pages as the first
  write left; when no page but the stored one was live before the first write,
  exactly one page is live after each of them. The first capability is not revoked
  by this: it still authenticates, to the address of the page that was freed.
\<close>

theorem replacement_frees_once:
  assumes "slot_ok s" and "message s \<noteq> Null \<or> free_list s \<noteq> []"
    and "unat l1 \<le> PAGE_SIZE" and "unat l1 \<le> length b1"
    and "unat l2 \<le> PAGE_SIZE" and "unat l2 \<le> length b2"
  shows "let c = this_module s; d = parrot_pdomain s;
             s1 = state_after (parrot_write s b1 l1);
             s2 = state_after (parrot_write s1 b2 l2)
         in returned (parrot_write s b1 l1) = Some (int (unat l1)) \<and>
            returned (parrot_write s1 b2 l2) = Some (int (unat l2)) \<and>
            (\<exists>a1 a2. message s1 = Signed a1 c d \<and> message s2 = Signed a2 c d \<and>
               a1 \<in> dom (heap s1) \<and>
               new_events s1 s2 =
                 [EvAuth (message s1) c d, EvFree a1, EvAlloc d a2, EvUnprotect d,
                  EvCopyFromUser a2 (unat l2), EvStore a2 MESSAGE_SIZE_OFF 8, EvProtect,
                  EvSign a2 c d] \<and>
               dom (heap s2) = insert a2 (dom (heap s1) - {a1}) \<and>
               card (dom (heap s2)) = card (dom (heap s1)) \<and>
               (dom (heap s) \<subseteq> stored_pages s \<longrightarrow>
                  dom (heap s1) = {a1} \<and> dom (heap s2) = {a2}) \<and>
               authenticate (domains s2) (message s1) c d = Inr a1)"
proof -
  let ?c = "this_module s" and ?d = "parrot_pdomain s"
  from assms(1-4) obtain p where p: "p \<noteq> 0" "\<not> IS_ERR p"
    and mp: "message s \<noteq> Null \<longrightarrow> message s = Signed p ?c ?d"
    and w1: "parrot_write s b1 l1 =
      Inr (int (unat l1),
          s\<lparr>message := Signed p ?c ?d, mode := Protected,
            heap := (heap s)(p \<mapsto> (?d, page_image b1 l1)),
            free_list := (if message s = Null then tl (free_list s) else free_list s),
            trace := trace s @
               (if message s = Null then [] else [EvAuth (message s) ?c ?d, EvFree p]) @
               [EvAlloc ?d p, EvUnprotect ?d,
                EvCopyFromUser p (unat l1), EvStore p MESSAGE_SIZE_OFF 8, EvProtect,
                EvSign p ?c ?d]\<rparr>)" (is "_ = Inr (_, ?s1)")
    by (rule parrot_write_slot)
  define s1 where "s1 = ?s1"
  have ok1: "slot_ok s1"
    unfolding s1_def using assms(1) p by (rule slot_ok_written)
  have f1: "message s1 = Signed p ?c ?d" "this_module s1 = ?c" "parrot_pdomain s1 = ?d"
    "heap s1 = (heap s)(p \<mapsto> (?d, page_image b1 l1))" "domains s1 = domains s"
    by (simp_all add: s1_def)
  have "message s1 \<noteq> Null \<or> free_list s1 \<noteq> []"
    by (simp add: f1)
  with ok1 obtain q where q: "message s1 \<noteq> Null \<longrightarrow> message s1 = Signed q (this_module s1) (parrot_pdomain s1)"
    and w2: "parrot_write s1 b2 l2 =
      Inr (int (unat l2),
          s1\<lparr>message := Signed q (this_module s1) (parrot_pdomain s1), mode := Protected,
            heap := (heap s1)(q \<mapsto> (parrot_pdomain s1, page_image b2 l2)),
            free_list := (if message s1 = Null then tl (free_list s1) else free_list s1),
            trace := trace s1 @
               (if message s1 = Null then []
                else [EvAuth (message s1) (this_module s1) (parrot_pdomain s1), EvFree q]) @
               [EvAlloc (parrot_pdomain s1) q, EvUnprotect (parrot_pdomain s1),
                EvCopyFromUser q (unat l2), EvStore q MESSAGE_SIZE_OFF 8, EvProtect,
                EvSign q (this_module s1) (parrot_pdomain s1)]\<rparr>)" (is "_ = Inr (_, ?s2)")
    using assms(5,6) by (rule parrot_write_slot)
  from q have qp: "q = p"
    by (simp add: f1)
  define s2 where "s2 = ?s2"
  from assms(1) have d: "?d \<in> set (domains s)"
    by (simp add: slot_ok_def)
  have st1: "state_after (parrot_write s b1 l1) = s1"
    by (simp add: w1 s1_def state_after_def)
  have st2: "state_after (parrot_write s1 b2 l2) = s2"
    by (simp add: w2 s2_def state_after_def)
  have r1: "returned (parrot_write s b1 l1) = Some (int (unat l1))"
    by (simp add: w1 returned_def)
  have r2: "returned (parrot_write s1 b2 l2) = Some (int (unat l2))"
    by (simp add: w2 returned_def)
  have f2: "message s2 = Signed p ?c ?d" "domains s2 = domains s"
    "heap s2 = (heap s1)(p \<mapsto> (?d, page_image b2 l2))"
    "trace s2 = trace s1 @ [EvAuth (message s1) ?c ?d, EvFree p, EvAlloc ?d p, EvUnprotect ?d,
                  EvCopyFromUser p (unat l2), EvStore p MESSAGE_SIZE_OFF 8, EvProtect,
                  EvSign p ?c ?d]"
    by (simp_all add: s2_def f1 qp)
  have live: "p \<in> dom (heap s1)"
    by (simp add: f1)
  then have doms: "dom (heap s2) = dom (heap s1)"
    by (auto simp add: f2)
  have one: "dom (heap s1) = {p}" if "dom (heap s) \<subseteq> stored_pages s"
  proof (cases "message s")
    case Null
    with that have "dom (heap s) = {}"
      by (simp add: stored_pages_def)
    then show ?thesis
      by (simp add: f1)
  next
    case (Signed a c' d')
    with mp have "a = p"
      by simp
    with that Signed have "dom (heap s) \<subseteq> {p}"
      by (simp add: stored_pages_def)
    then show ?thesis
      by (auto simp add: f1)
  qed
  have "message s1 = Signed p ?c ?d \<and> message s2 = Signed p ?c ?d \<and>
               p \<in> dom (heap s1) \<and>
               new_events s1 s2 =
                 [EvAuth (message s1) ?c ?d, EvFree p, EvAlloc ?d p, EvUnprotect ?d,
                  EvCopyFromUser p (unat l2), EvStore p MESSAGE_SIZE_OFF 8, EvProtect,
                  EvSign p ?c ?d] \<and>
               dom (heap s2) = insert p (dom (heap s1) - {p}) \<and>
               card (dom (heap s2)) = card (dom (heap s1)) \<and>
               (dom (heap s) \<subseteq> stored_pages s \<longrightarrow>
                  dom (heap s1) = {p} \<and> dom (heap s2) = {p}) \<and>
               authenticate (domains s2) (message s1) ?c ?d = Inr p"
    using live doms one d by (auto simp add: f1 f2 new_events_def authenticate_def)
  then show ?thesis
    unfolding Let_def st1 st2 using r1 r2 by blast
qed

theorem replacement_frees_once_witness:
  "returned (parrot_write boot hello 5) = Some 5 \<and>
   returned (parrot_write stored [121] 1) = Some 1 \<and>
   card (dom (heap (state_after (parrot_write stored [121] 1)))) = 1 \<and>
   authenticate (domains (state_after (parrot_write stored [121] 1))) (message stored) 7 0 =
     Inr 0x1000"
proof -
  have h: "message boot \<noteq> Null \<or> free_list boot \<noteq> []"
    "unat (5 :: 64 word) \<le> PAGE_SIZE" "unat (5 :: 64 word) \<le> length hello"
    "unat (1 :: 64 word) \<le> PAGE_SIZE" "unat (1 :: 64 word) \<le> length [121 :: byte]"
    by (simp_all add: boot_eq PAGE_SIZE_def hello_def)
  have ok: "slot_ok boot"
    using store_ok_boot by (rule store_ok_slot_ok)
  have b: "this_module boot = 7" "parrot_pdomain boot = 0"
    by (simp_all add: boot_eq)
  have e: "dom (heap boot) \<subseteq> stored_pages boot"
    by (simp add: boot_eq)
  have m: "message stored = Signed 0x1000 7 0"
    by (simp add: stored_eq)
  from replacement_frees_once [OF ok h]
  show ?thesis
    unfolding Let_def stored_def [symmetric] b using e by (auto simp add: m)
qed

text \<open>
  C7 as stated fails twice. After the second write the capability stored by the
  first write still authenticates, and here it even equals the new one, since the
  freed page is the page allocated next. And two successful writes need not leave
  one live page: on the machine where an earlier write lost its page to a faulting
  copy, two pages are live after them.
\<close>

theorem replacement_frees_once_counterexample:
  "returned (xmp_auth_ptr (state_after (parrot_write stored [121] 1)) (message stored) 7 0) =
     Some 0x1000 \<and>
   message (state_after (parrot_write stored [121] 1)) = message stored \<and>
   returned (parrot_write leaked hello 5) = Some 5 \<and>
   returned (parrot_write (state_after (parrot_write leaked hello 5)) [121] 1) = Some 1 \<and>
   dom (heap (state_after (parrot_write (state_after (parrot_write leaked hello 5)) [121] 1))) =
     {0x1000, 0x2000}"
proof -
  have "parrot_write stored [121] 1 =
     Inr (1, stored\<lparr>mode := Protected,
            heap := (heap stored)(0x1000 \<mapsto> (0, page_image [121] 1)),
            trace := trace stored @ [EvAuth (message stored) 7 0, EvFree 0x1000,
               EvAlloc 0 0x1000, EvUnprotect 0,
               EvCopyFromUser 0x1000 1, EvStore 0x1000 MESSAGE_SIZE_OFF 8, EvProtect,
               EvSign 0x1000 7 0]\<rparr>)"
    by (subst parrot_write_replace [where a = "0x1000" and pg = "(0, page_image hello 5)"])
      (simp_all add: stored_eq boot_eq IS_ERR_def PAGE_SIZE_def Let_def)
  then have a: "returned (xmp_auth_ptr (state_after (parrot_write stored [121] 1)) (message stored) 7 0) =
     Some 0x1000 \<and> message (state_after (parrot_write stored [121] 1)) = message stored"
    by (simp add: state_after_def returned_def xmp_auth_ptr_def authenticate_def stored_eq boot_eq)
  define s1 where "s1 = leaked\<lparr>message := Signed 0x2000 7 0,
            heap := (heap leaked)(0x2000 \<mapsto> (0, page_image hello 5)),
            free_list := [],
            trace := trace leaked @ [EvAlloc 0 0x2000, EvUnprotect 0, EvCopyFromUser 0x2000 5,
               EvStore 0x2000 256 8, EvProtect, EvSign 0x2000 7 0]\<rparr>"
  have w1: "parrot_write leaked hello 5 = Inr (5, s1)"
    unfolding s1_def
    by (subst parrot_write_fresh [where p = "0x2000" and rest = "[]"])
      (simp_all add: leaked_eq boot_eq IS_ERR_def PAGE_SIZE_def hello_def Let_def MESSAGE_SIZE_OFF_def)
  have w2: "parrot_write s1 [121] 1 =
     Inr (1, s1\<lparr>mode := Protected,
            heap := (heap s1)(0x2000 \<mapsto> (0, page_image [121] 1)),
            trace := trace s1 @ [EvAuth (message s1) 7 0, EvFree 0x2000,
               EvAlloc 0 0x2000, EvUnprotect 0,
               EvCopyFromUser 0x2000 1, EvStore 0x2000 MESSAGE_SIZE_OFF 8, EvProtect,
               EvSign 0x2000 7 0]\<rparr>)"
    by (subst parrot_write_replace [where a = "0x2000" and pg = "(0, page_image hello 5)"])
      (simp_all add: s1_def leaked_eq boot_eq IS_ERR_def PAGE_SIZE_def Let_def)
  have st: "state_after (parrot_write leaked hello 5) = s1"
    by (simp add: w1 state_after_def)
  have "dom (heap s1) = {0x1000, 0x2000}"
    by (auto simp add: s1_def leaked_eq)
  then have b: "returned (parrot_write leaked hello 5) = Some 5 \<and>
    returned (parrot_write (state_after (parrot_write leaked hello 5)) [121] 1) = Some 1 \<and>
    dom (heap (state_after (parrot_write (state_after (parrot_write leaked hello 5)) [121] 1))) =
     {0x1000, 0x2000}"
    unfolding st by (auto simp add: w1 w2 returned_def state_after_def)
  from a b show ?thesis
    by blast
qed

text \<open>
  C10. When the copy from the user buffer fails during a write over a stored
  message, \<open>write\<close> returns \<open>-EFAULT\<close> and the slot is not updated: it still holds
  the capability whose page was freed at the start of the call, and the new page is
  neither signed nor stored.
\<close>

theorem write_copy_fault:
  assumes "store_ok s" and "message s \<noteq> Null" and "length ubuf < unat len"
    and "unat len \<le> PAGE_SIZE"
  shows "returned (parrot_write s ubuf len) = Some (- EFAULT) \<and>
    message (state_after (parrot_write s ubuf len)) = message s \<and>
    (\<exists>a. message s = Signed a (this_module s) (parrot_pdomain s) \<and>
       new_events s (state_after (parrot_write s ubuf len)) =
         [EvAuth (message s) (this_module s) (parrot_pdomain s), EvFree a,
          EvAlloc (parrot_pdomain s) a, EvUnprotect (parrot_pdomain s),
          EvCopyFromUser a (unat len), EvStore a MESSAGE_SIZE_OFF 8, EvProtect])"
proof -
  from assms(2) have page: "message s \<noteq> Null \<or> free_list s \<noteq> []"
    by simp
  from parrot_write_ok [OF assms(1) page assms(4), of ubuf] obtain p where
    cap: "message s \<noteq> Null \<longrightarrow> message s = Signed p (this_module s) (parrot_pdomain s)"
    and w: "parrot_write s ubuf len =
     (let d = parrot_pdomain s; failed = (unat len - length ubuf \<noteq> 0) in
      Inr (if failed then - EFAULT else int (unat len),
          s\<lparr>message := (if failed then message s else Signed p (this_module s) d),
            mode := Protected,
            heap := [p \<mapsto> (d, page_image ubuf len)],
            free_list := (if message s = Null then tl (free_list s) else free_list s),
            trace := trace s @
               (if message s = Null then [] else [EvAuth (message s) (this_module s) d, EvFree p]) @
               [EvAlloc d p, EvUnprotect d,
                EvCopyFromUser p (unat len), EvStore p MESSAGE_SIZE_OFF 8, EvProtect] @
               (if failed then [] else [EvSign p (this_module s) d])\<rparr>))"
    by blast
  from assms(3) have failed: "unat len - length ubuf \<noteq> 0"
    by simp
  from cap assms(2) have "message s = Signed p (this_module s) (parrot_pdomain s)"
    by simp
  then show ?thesis
    unfolding w using assms(2) failed
    by (simp add: Let_def returned_def state_after_def new_events_def)
qed

theorem write_copy_fault_witness:
  "returned (parrot_write stored [1, 2] 3) = Some (- EFAULT) \<and>
   message (state_after (parrot_write stored [1, 2] 3)) = message stored"
proof -
  have h: "message stored \<noteq> Null" "length [1 :: byte, 2] < unat (3 :: 64 word)"
    "unat (3 :: 64 word) \<le> PAGE_SIZE"
    by (simp_all add: stored_eq PAGE_SIZE_def)
  from write_copy_fault [OF store_ok_stored h] show ?thesis
    by simp
qed

section \<open>Access Switcher\<close>

text \<open>
  Of the calls that return: from a protected mode, after any sequence of such calls
  the mode is \<open>Protected\<close> again, and in their events every \<open>unprotect\<close> is
  followed by its \<open>protect\<close> with only the copy of the payload and the store of its
  length in between.
\<close>

lemma protection_paired:
  assumes "mode s = Protected" and "run calls s = Some s'"
  shows "mode s' = Protected \<and> trace s' = trace s @ new_events s s' \<and>
    paired Protected (new_events s s')"
  using run_paired [OF assms] by (auto simp add: new_events_def)

lemma protection_paired_run:
  "run [Write hello 5, Read 8 5, Release, Open] boot \<noteq> None \<and>
   mode (the (run [Write hello 5, Read 8 5, Release, Open] boot)) = Protected \<and>
   paired Protected (new_events boot (the (run [Write hello 5, Read 8 5, Release, Open] boot)))"
proof -
  have w: "do_call (Write hello 5) boot = Some stored"
    by (simp add: do_call_def resumed_def write_hello stored_eq)
  have r: "do_call (Read 8 5) stored =
      Some (stored\<lparr>trace := trace stored @ [EvAuth (Signed 0x1000 7 0) 7 0, EvCopyToUser 0x1000 5]\<rparr>)"
    by (simp add: do_call_def resumed_def read_stored PAGE_SIZE_def)
  have h: "mode boot = Protected"
    by (simp add: boot_eq)
  have rl: "do_call Release s = Some s" for s
    by (simp add: do_call_def resumed_def parrot_release_def)
  have op: "do_call Open s = Some (s\<lparr>num_opens := num_opens s + 1\<rparr>)" for s
    by (simp add: do_call_def resumed_def parrot_open_def)
  have "run [Write hello 5, Read 8 5, Release, Open] boot \<noteq> None"
    by (simp add: w r rl op)
  then obtain s' where s': "run [Write hello 5, Read 8 5, Release, Open] boot = Some s'"
    by blast
  show ?thesis
    using protection_paired [OF h s'] s' by simp
qed

text \<open>
  C8. Every \<open>unprotect\<close> performed during \<open>write\<close> should be followed by its
  \<open>protect\<close>, and the mode should be \<open>Protected\<close> when a call is left. That fails
  when \<open>write\<close> stops between the two: on the machine with no free page
  \<open>get_zeroed_page\<close> gives 0, the test \<open>IS_ERR\<close> of parrot.c 103 lets 0 pass,
  \<open>xmp_unprotect\<close> runs and the copy through the null pointer faults before
  \<open>xmp_protect\<close>. The mode was \<open>Protected\<close> and is left \<open>Unprotected\<close>.
\<close>

theorem write_starved:
  "mode starved = Protected \<and>
   faulted (parrot_write starved hello 5) = Some NullDeref \<and>
   new_events starved (state_after (parrot_write starved hello 5)) =
     [EvAlloc 0 0, EvUnprotect 0, EvCopyFromUser 0 5] \<and>
   mode (state_after (parrot_write starved hello 5)) = Unprotected 0"
  by (simp add: parrot_write_def get_zeroed_page_def xmp_unprotect_def copy_from_user_def
      page_store_def log_def starved_eq hello_def IS_ERR_def MESSAGE_OFF_def Let_def
      faulted_def state_after_def new_events_def)

end
